theory Spec2Isabelle
  imports Main
begin

section \<open>The mapping store of \<^verbatim>\<open>mappings_manager.py\<close>\<close>

text \<open>
  The module keeps three name-mapping tables in a YAML file (\<^verbatim>\<open>MAPPINGS_FILE\<close>) and
  migrates them out of a general configuration file (\<^verbatim>\<open>CONFIG_FILE\<close>). Every
  operation reads the files afresh, so the model threads an explicit \<open>world\<close>
  (the two files, whether they can be written, and the calls made to the logger) through
  each function, and returns either the exception that leaves the function or its value.
\<close>

subsection \<open>YAML values and the Python operations applied to them\<close>

text \<open>
  What \<^verbatim>\<open>yaml.safe_load\<close> returns: \<^verbatim>\<open>None\<close>, a bool, an int, a str, a list or a
  dict (floats, dates, sets and binary data are left out). Dictionaries have string keys
  and are compared as Python compares them, without regard to insertion order, so a dict
  is a map. Values are trees: an anchor shared by two places of a document is not
  modelled. Strings are ASCII.
\<close>

datatype yaml =
    YNull
  | YBool bool
  | YInt int
  | YStr string
  | YList "yaml list"
  | YDict "string \<Rightarrow> yaml option"

datatype py_error =
    FileNotFoundError
  | YAMLError
  | OSError
  | TypeError
  | AttributeError
  | KeyError

text \<open>Sequencing of steps any of which may raise.\<close>

definition bind_exc :: "py_error + 'a \<Rightarrow> ('a \<Rightarrow> py_error + 'b) \<Rightarrow> py_error + 'b" where
  "bind_exc r f = (case r of Inl e \<Rightarrow> Inl e | Inr v \<Rightarrow> f v)"

text \<open>\<^verbatim>\<open>a.startswith(b)\<close> and \<^verbatim>\<open>k in s\<close> on strings (substring search).\<close>

fun starts_with :: "string \<Rightarrow> string \<Rightarrow> bool" where
  "starts_with s [] = True"
| "starts_with [] (k # ks) = False"
| "starts_with (c # cs) (k # ks) = (c = k \<and> starts_with cs ks)"

fun is_substring :: "string \<Rightarrow> string \<Rightarrow> bool" where
  "is_substring k [] = (k = [])"
| "is_substring k (c # cs) = (starts_with (c # cs) k \<or> is_substring k cs)"

text \<open>
  \<^verbatim>\<open>k in c\<close> for a string \<open>k\<close>: key membership on a dict, element membership on a
  list, substring search on a str, and \<^verbatim>\<open>TypeError\<close> on \<^verbatim>\<open>None\<close>, a bool or an int
  (``argument of type ... is not iterable'').
\<close>

fun py_contains :: "string \<Rightarrow> yaml \<Rightarrow> py_error + bool" where
  "py_contains k (YDict m) = Inr (m k \<noteq> None)"
| "py_contains k (YList xs) = Inr (YStr k \<in> set xs)"
| "py_contains k (YStr s) = Inr (is_substring k s)"
| "py_contains k YNull = Inl TypeError"
| "py_contains k (YBool b) = Inl TypeError"
| "py_contains k (YInt i) = Inl TypeError"

text \<open>\<^verbatim>\<open>c[k]\<close> with a string \<open>k\<close>: only a dict can be indexed by a string.\<close>

fun py_getitem :: "yaml \<Rightarrow> string \<Rightarrow> py_error + yaml" where
  "py_getitem (YDict m) k = (case m k of None \<Rightarrow> Inl KeyError | Some v \<Rightarrow> Inr v)"
| "py_getitem YNull k = Inl TypeError"
| "py_getitem (YBool b) k = Inl TypeError"
| "py_getitem (YInt i) k = Inl TypeError"
| "py_getitem (YStr s) k = Inl TypeError"
| "py_getitem (YList xs) k = Inl TypeError"

text \<open>\<^verbatim>\<open>c[k] = v\<close>; the dict is updated in place, here the updated dict is returned.\<close>

fun py_setitem :: "yaml \<Rightarrow> string \<Rightarrow> yaml \<Rightarrow> py_error + yaml" where
  "py_setitem (YDict m) k v = Inr (YDict (m(k \<mapsto> v)))"
| "py_setitem YNull k v = Inl TypeError"
| "py_setitem (YBool b) k v = Inl TypeError"
| "py_setitem (YInt i) k v = Inl TypeError"
| "py_setitem (YStr s) k v = Inl TypeError"
| "py_setitem (YList xs) k v = Inl TypeError"

text \<open>\<^verbatim>\<open>del c[k]\<close>.\<close>

fun py_delitem :: "yaml \<Rightarrow> string \<Rightarrow> py_error + yaml" where
  "py_delitem (YDict m) k = (if m k = None then Inl KeyError else Inr (YDict (m(k := None))))"
| "py_delitem YNull k = Inl TypeError"
| "py_delitem (YBool b) k = Inl TypeError"
| "py_delitem (YInt i) k = Inl TypeError"
| "py_delitem (YStr s) k = Inl TypeError"
| "py_delitem (YList xs) k = Inl TypeError"

text \<open>\<^verbatim>\<open>c.get(k, d)\<close>: a method of dicts only.\<close>

definition dict_get :: "(string \<Rightarrow> yaml option) \<Rightarrow> string \<Rightarrow> yaml \<Rightarrow> yaml" where
  "dict_get m k d = (case m k of None \<Rightarrow> d | Some v \<Rightarrow> v)"

fun py_get :: "yaml \<Rightarrow> string \<Rightarrow> yaml \<Rightarrow> py_error + yaml" where
  "py_get (YDict m) k d = Inr (dict_get m k d)"
| "py_get YNull k d = Inl AttributeError"
| "py_get (YBool b) k d = Inl AttributeError"
| "py_get (YInt i) k d = Inl AttributeError"
| "py_get (YStr s) k d = Inl AttributeError"
| "py_get (YList xs) k d = Inl AttributeError"

text \<open>\<^verbatim>\<open>x is None\<close>.\<close>

fun is_none :: "yaml \<Rightarrow> bool" where
  "is_none YNull = True"
| "is_none (YBool b) = False"
| "is_none (YInt i) = False"
| "is_none (YStr s) = False"
| "is_none (YList xs) = False"
| "is_none (YDict m) = False"

text \<open>
  \<^verbatim>\<open>root[p1]...[pn]\<close> and \<^verbatim>\<open>root[p1]...[pn][k] = v\<close>. Python reaches the innermost
  container by indexing and updates it in place; on trees this is the rebuilt root.
\<close>

fun get_at :: "yaml \<Rightarrow> string list \<Rightarrow> py_error + yaml" where
  "get_at c [] = Inr c"
| "get_at c (p # ps) = bind_exc (py_getitem c p) (\<lambda>child. get_at child ps)"

fun set_at :: "yaml \<Rightarrow> string list \<Rightarrow> string \<Rightarrow> yaml \<Rightarrow> py_error + yaml" where
  "set_at c [] k v = py_setitem c k v"
| "set_at c (p # ps) k v =
     bind_exc (py_getitem c p) (\<lambda>child.
     bind_exc (set_at child ps k v) (\<lambda>child'. py_setitem c p child'))"

subsection \<open>\<^verbatim>\<open>str.replace\<close> and \<^verbatim>\<open>str.title\<close>\<close>

definition lower_letters :: string where
  "lower_letters = ''abcdefghijklmnopqrstuvwxyz''"

definition upper_letters :: string where
  "upper_letters = ''ABCDEFGHIJKLMNOPQRSTUVWXYZ''"

definition is_cased :: "char \<Rightarrow> bool" where
  "is_cased c = (c \<in> set lower_letters \<or> c \<in> set upper_letters)"

definition to_upper :: "char \<Rightarrow> char" where
  "to_upper c = (case map_of (zip lower_letters upper_letters) c of None \<Rightarrow> c | Some u \<Rightarrow> u)"

definition to_lower :: "char \<Rightarrow> char" where
  "to_lower c = (case map_of (zip upper_letters lower_letters) c of None \<Rightarrow> c | Some l \<Rightarrow> l)"

text \<open>
  \<^verbatim>\<open>str.title()\<close>: a character that follows a cased character is lowercased, any other
  character is uppercased; \<open>prev\<close> says whether the previous character was cased.
\<close>

fun title_from :: "bool \<Rightarrow> string \<Rightarrow> string" where
  "title_from prev [] = []"
| "title_from prev (c # cs) =
     (if prev then to_lower c else to_upper c) # title_from (is_cased c) cs"

definition str_title :: "string \<Rightarrow> string" where
  "str_title s = title_from False s"

text \<open>\<^verbatim>\<open>s.replace(old, new)\<close> for single characters \<open>old\<close> and \<open>new\<close>.\<close>

definition str_replace :: "string \<Rightarrow> char \<Rightarrow> char \<Rightarrow> string" where
  "str_replace s old new = map (\<lambda>c. if c = old then new else c) s"

text \<open>
  The chain \<^verbatim>\<open>x.replace('-', ' ').title()\<close> on a value: only a str has these methods.
\<close>

fun py_replace_title :: "yaml \<Rightarrow> py_error + yaml" where
  "py_replace_title (YStr s) = Inr (YStr (str_title (str_replace s (CHR ''-'') (CHR '' ''))))"
| "py_replace_title YNull = Inl AttributeError"
| "py_replace_title (YBool b) = Inl AttributeError"
| "py_replace_title (YInt i) = Inl AttributeError"
| "py_replace_title (YList xs) = Inl AttributeError"
| "py_replace_title (YDict m) = Inl AttributeError"

subsection \<open>Files, the logger and the world\<close>

text \<open>
  A file is absent, present with content that \<^verbatim>\<open>yaml.safe_load\<close> rejects, or present
  with content that parses to a value. \<^verbatim>\<open>yaml.dump\<close> followed by \<^verbatim>\<open>yaml.safe_load\<close>
  gives the value back, so a written file holds the value dumped.
\<close>

datatype file_state = Absent | Malformed | Content yaml

datatype level = ERROR | INFO

datatype event =
    LoadMappingsFailed py_error
  | MappingsFileNotFound
  | AutoMigrated
  | LoadConfigFailed py_error
  | SavedMappings
  | UpdatedConfig
  | UpdateConfigFailed py_error
  | SaveFailed py_error
  | AddPlexFailed py_error
  | AddTitleFailed py_error
  | Traceback py_error
  | MigrateFailed py_error

record world =
  mappings_file :: file_state
  config_file :: file_state
  mappings_writable :: bool
  config_writable :: bool
  log :: "(level \<times> event) list"

type_synonym 'a outcome = "(py_error + 'a) \<times> world"

definition logger_error :: "event \<Rightarrow> world \<Rightarrow> world" where
  "logger_error ev w = w\<lparr>log := log w @ [(ERROR, ev)]\<rparr>"

definition logger_info :: "event \<Rightarrow> world \<Rightarrow> world" where
  "logger_info ev w = w\<lparr>log := log w @ [(INFO, ev)]\<rparr>"

text \<open>\<^verbatim>\<open>os.path.exists\<close>.\<close>

definition path_exists :: "file_state \<Rightarrow> bool" where
  "path_exists f = (case f of Absent \<Rightarrow> False | Malformed \<Rightarrow> True | Content v \<Rightarrow> True)"

text \<open>\<^verbatim>\<open>with open(path, 'r') as file: yaml.safe_load(file)\<close>.\<close>

definition read_yaml :: "file_state \<Rightarrow> py_error + yaml" where
  "read_yaml f =
     (case f of Absent \<Rightarrow> Inl FileNotFoundError | Malformed \<Rightarrow> Inl YAMLError | Content v \<Rightarrow> Inr v)"

text \<open>
  \<^verbatim>\<open>os.makedirs\<close>, \<^verbatim>\<open>open(MAPPINGS_FILE, 'w')\<close> and \<^verbatim>\<open>yaml.dump\<close>: the write raises
  \<^verbatim>\<open>OSError\<close> when the location cannot be written, and leaves the file as it was.
\<close>

definition write_mappings :: "yaml \<Rightarrow> world \<Rightarrow> unit outcome" where
  "write_mappings v w =
     (if mappings_writable w then (Inr (), w\<lparr>mappings_file := Content v\<rparr>) else (Inl OSError, w))"

definition write_config :: "yaml \<Rightarrow> world \<Rightarrow> unit outcome" where
  "write_config v w =
     (if config_writable w then (Inr (), w\<lparr>config_file := Content v\<rparr>) else (Inl OSError, w))"

text \<open>Sequencing in the world, and \<^verbatim>\<open>try: ... except Exception as e: ...\<close>.\<close>

definition bind_io :: "'a outcome \<Rightarrow> ('a \<Rightarrow> world \<Rightarrow> 'b outcome) \<Rightarrow> 'b outcome" where
  "bind_io r f = (case r of (Inl e, w) \<Rightarrow> (Inl e, w) | (Inr v, w) \<Rightarrow> f v w)"

definition try_except :: "'a outcome \<Rightarrow> (py_error \<Rightarrow> world \<Rightarrow> 'a outcome) \<Rightarrow> 'a outcome" where
  "try_except r handler = (case r of (Inl e, w) \<Rightarrow> handler e w | (Inr v, w) \<Rightarrow> (Inr v, w))"

subsection \<open>\<^verbatim>\<open>save_mappings\<close>\<close>

text \<open>\<^verbatim>\<open>if k in config: del config[k]\<close> (lines 93 to 98).\<close>

definition remove_key :: "yaml \<Rightarrow> string \<Rightarrow> py_error + yaml" where
  "remove_key config k =
     bind_exc (py_contains k config) (\<lambda>present. if present then py_delitem config k else Inr config)"

text \<open>
  The body of the inner \<^verbatim>\<open>try\<close> (lines 89 to 104): re-read the configuration, drop the
  three keys, rewrite it.
\<close>

definition update_config :: "world \<Rightarrow> unit outcome" where
  "update_config w =
     bind_io (read_yaml (config_file w), w) (\<lambda>config w.
     bind_io (remove_key config ''mappings'', w) (\<lambda>config w.
     bind_io (remove_key config ''trakt_mappings'', w) (\<lambda>config w.
     bind_io (remove_key config ''title_mappings'', w) (\<lambda>config w.
     bind_io (write_config config w) (\<lambda>_ w.
     (Inr (), logger_info UpdatedConfig w))))))"

definition save_mappings :: "yaml \<Rightarrow> bool \<Rightarrow> world \<Rightarrow> bool outcome" where
  "save_mappings mappings migrate_from_config w =
     try_except
       (bind_io (write_mappings mappings w) (\<lambda>_ w.
        bind_io (Inr (), logger_info SavedMappings w) (\<lambda>_ w.
        bind_io
          (if migrate_from_config \<and> path_exists (config_file w)
           then try_except (update_config w)
                  (\<lambda>e w. (Inr (), logger_error (UpdateConfigFailed e) w))
           else (Inr (), w)) (\<lambda>_ w.
        (Inr True, w)))))
       (\<lambda>e w. (Inr False, logger_error (SaveFailed e) w))"

subsection \<open>\<^verbatim>\<open>load_mappings\<close>\<close>

text \<open>\<^verbatim>\<open>if k not in mappings: mappings[k] = {}\<close> (lines 43 to 48, and 119 to 120).\<close>

definition ensure_section :: "string \<Rightarrow> yaml \<Rightarrow> py_error + yaml" where
  "ensure_section k mappings =
     bind_exc (py_contains k mappings) (\<lambda>present.
       if \<not> present then py_setitem mappings k (YDict Map.empty) else Inr mappings)"

text \<open>
  The body of the first \<^verbatim>\<open>try\<close> (lines 40 to 50): read the mappings file and fill in
  absent sections.
\<close>

definition load_mappings_file :: "world \<Rightarrow> py_error + yaml" where
  "load_mappings_file w =
     bind_exc (read_yaml (mappings_file w)) (\<lambda>mappings.
     bind_exc (ensure_section ''mappings'' mappings) (\<lambda>mappings.
     bind_exc (ensure_section ''trakt_mappings'' mappings) (\<lambda>mappings.
     ensure_section ''title_mappings'' mappings)))"

definition empty_document :: yaml where
  "empty_document =
     YDict [''mappings'' \<mapsto> YDict Map.empty, ''trakt_mappings'' \<mapsto> YDict Map.empty,
            ''title_mappings'' \<mapsto> YDict Map.empty]"

text \<open>Lines 60 to 63: a new dict with the three sections of the configuration.\<close>

definition extract_sections :: "yaml \<Rightarrow> py_error + yaml" where
  "extract_sections config =
     bind_exc (py_get config ''mappings'' (YDict Map.empty)) (\<lambda>s1.
     bind_exc (py_get config ''trakt_mappings'' (YDict Map.empty)) (\<lambda>s2.
     bind_exc (py_get config ''title_mappings'' (YDict Map.empty)) (\<lambda>s3.
     Inr (YDict [''mappings'' \<mapsto> s1, ''trakt_mappings'' \<mapsto> s2, ''title_mappings'' \<mapsto> s3]))))"

text \<open>
  The fallback (lines 55 to 72): the three sections are taken from the configuration, the
  document is saved with the migration flag, and returned; any exception gives the empty
  document.
\<close>

definition load_mappings_config :: "world \<Rightarrow> yaml outcome" where
  "load_mappings_config w0 =
     (let w = logger_info MappingsFileNotFound w0 in
      try_except
        (bind_io (read_yaml (config_file w), w) (\<lambda>config w.
         bind_io (extract_sections config, w) (\<lambda>mappings w.
         bind_io (save_mappings mappings True w) (\<lambda>_ w.
         (Inr mappings, logger_info AutoMigrated w)))))
        (\<lambda>e w. (Inr empty_document, logger_error (LoadConfigFailed e) w)))"

text \<open>
  \<open>load_mappings\<close>: when the mappings file exists the first \<^verbatim>\<open>try\<close> runs, and its value
  is returned; an exception there is logged and control falls through to the fallback.
\<close>

definition load_mappings :: "world \<Rightarrow> yaml outcome" where
  "load_mappings w =
     (if path_exists (mappings_file w)
      then (case load_mappings_file w of
              Inr mappings \<Rightarrow> (Inr mappings, w)
            | Inl e \<Rightarrow> load_mappings_config (logger_error (LoadMappingsFailed e) w))
      else load_mappings_config w)"

subsection \<open>The mutators, the migration and the queries\<close>

definition add_plex_mapping :: "string \<Rightarrow> string \<Rightarrow> world \<Rightarrow> bool outcome" where
  "add_plex_mapping afl_name plex_name w =
     try_except
       (bind_io (load_mappings w) (\<lambda>mappings w.
        bind_io (ensure_section ''mappings'' mappings, w) (\<lambda>mappings w.
        bind_io (set_at mappings [''mappings''] afl_name (YStr plex_name), w) (\<lambda>mappings w.
        save_mappings mappings False w))))
       (\<lambda>e w. (Inr False, logger_error (AddPlexFailed e) w))"

text \<open>
  \<^verbatim>\<open>if k not in c or c[k] is None\<close> (lines 137 and 145), with Python's short-circuit
  \<^verbatim>\<open>or\<close>; \<open>c\<close> is the container at \<open>path\<close> under the document.
\<close>

definition absent_or_none :: "yaml \<Rightarrow> string list \<Rightarrow> string \<Rightarrow> py_error + bool" where
  "absent_or_none mappings path k =
     bind_exc (get_at mappings path) (\<lambda>c.
     bind_exc (py_contains k c) (\<lambda>present.
       if \<not> present then Inr True
       else bind_exc (py_getitem c k) (\<lambda>v. Inr (is_none v))))"

text \<open>Lines 137 to 149: what \<^verbatim>\<open>add_title_mapping\<close> does to the loaded document.\<close>

definition title_mapping_update :: "string \<Rightarrow> string \<Rightarrow> string \<Rightarrow> yaml \<Rightarrow> py_error + yaml" where
  "title_mapping_update anime_name episode_title trakt_title mappings =
     bind_exc (absent_or_none mappings [] ''title_mappings'') (\<lambda>b1.
     bind_exc (if b1 then set_at mappings [] ''title_mappings'' (YDict Map.empty)
               else Inr mappings) (\<lambda>mappings.
     bind_exc (get_at mappings [''title_mappings'']) (\<lambda>tm.
     bind_exc (py_contains anime_name tm) (\<lambda>b2.
     bind_exc (if \<not> b2 then set_at mappings [''title_mappings''] anime_name (YDict Map.empty)
               else Inr mappings) (\<lambda>mappings.
     bind_exc (absent_or_none mappings [''title_mappings'', anime_name] ''special_matches'') (\<lambda>b3.
     bind_exc (if b3 then set_at mappings [''title_mappings'', anime_name] ''special_matches''
                            (YDict Map.empty)
               else Inr mappings) (\<lambda>mappings.
     set_at mappings [''title_mappings'', anime_name, ''special_matches''] episode_title
       (YStr trakt_title))))))))"

definition add_title_mapping :: "string \<Rightarrow> string \<Rightarrow> string \<Rightarrow> world \<Rightarrow> bool outcome" where
  "add_title_mapping anime_name episode_title trakt_title w =
     try_except
       (bind_io (load_mappings w) (\<lambda>mappings w.
        bind_io (title_mapping_update anime_name episode_title trakt_title mappings, w)
          (\<lambda>mappings w.
        save_mappings mappings False w)))
       (\<lambda>e w. (Inr False, logger_error (Traceback e) (logger_error (AddTitleFailed e) w)))"

definition migrate_mappings_from_config :: "world \<Rightarrow> bool outcome" where
  "migrate_mappings_from_config w =
     try_except
       (bind_io (load_mappings w) (\<lambda>mappings w. save_mappings mappings True w))
       (\<lambda>e w. (Inr False, logger_error (MigrateFailed e) w))"

definition get_mappings :: "world \<Rightarrow> yaml outcome" where
  "get_mappings w = load_mappings w"

text \<open>\<^verbatim>\<open>get_plex_name\<close> has no handler: an exception raised inside leaves the function.\<close>

definition get_plex_name :: "string \<Rightarrow> world \<Rightarrow> yaml outcome" where
  "get_plex_name afl_name w =
     bind_io (load_mappings w) (\<lambda>mappings w.
     bind_io (py_get mappings ''mappings'' (YDict Map.empty), w) (\<lambda>section w.
     bind_io (py_get section afl_name (YStr afl_name), w) (\<lambda>plex_name w.
     bind_io (py_contains ''-'' plex_name, w) (\<lambda>hyphen w.
     if hyphen then (py_replace_title plex_name, w) else (Inr plex_name, w)))))"

subsection \<open>Example states\<close>

text \<open>A configuration with one mapping and one unrelated key.\<close>

definition example_config :: yaml where
  "example_config = YDict [''mappings'' \<mapsto> YDict [''a'' \<mapsto> YStr ''b''], ''plex'' \<mapsto> YStr ''x'']"

text \<open>
  A mappings file whose \<^verbatim>\<open>mappings\<close> key has no value (YAML reads \<^verbatim>\<open>mappings:\<close> as
  \<^verbatim>\<open>None\<close>), and a mappings file that maps a name to a number.
\<close>

definition null_section_document :: yaml where
  "null_section_document =
     YDict [''mappings'' \<mapsto> YNull, ''trakt_mappings'' \<mapsto> YDict Map.empty,
            ''title_mappings'' \<mapsto> YDict Map.empty]"

definition world_null_section :: world where
  "world_null_section =
     \<lparr>mappings_file = Content null_section_document, config_file = Absent,
      mappings_writable = True, config_writable = True, log = []\<rparr>"

definition world_int_name :: world where
  "world_int_name =
     \<lparr>mappings_file = Content (YDict [''mappings'' \<mapsto> YDict [''one-piece'' \<mapsto> YInt 1]]),
      config_file = Absent, mappings_writable = True, config_writable = True, log = []\<rparr>"

text \<open>No mappings file, and a configuration whose \<^verbatim>\<open>mappings\<close> key has no value.\<close>

definition world_null_config :: world where
  "world_null_config =
     \<lparr>mappings_file = Absent, config_file = Content (YDict [''mappings'' \<mapsto> YNull]),
      mappings_writable = True, config_writable = True, log = []\<rparr>"

text \<open>A mappings file that is present, and a configuration that still has a mapping.\<close>

definition world_both_files :: world where
  "world_both_files =
     \<lparr>mappings_file = Content empty_document, config_file = Content example_config,
      mappings_writable = True, config_writable = True, log = []\<rparr>"

text \<open>A mappings file with one section only, beside the same configuration.\<close>

definition world_partial_file :: world where
  "world_partial_file =
     \<lparr>mappings_file = Content (YDict [''mappings'' \<mapsto> YDict [''c'' \<mapsto> YStr ''d'']]),
      config_file = Content example_config,
      mappings_writable = True, config_writable = True, log = []\<rparr>"



text \<open>A mappings file that does not parse, and one that is empty.\<close>

definition world_malformed :: world where
  "world_malformed =
     \<lparr>mappings_file = Malformed, config_file = Content example_config,
      mappings_writable = True, config_writable = True, log = []\<rparr>"

definition world_empty_file :: world where
  "world_empty_file =
     \<lparr>mappings_file = Content YNull, config_file = Content example_config,
      mappings_writable = True, config_writable = True, log = []\<rparr>"

text \<open>No mappings file yet, and a configuration that cannot be rewritten.\<close>

definition world_readonly_config :: world where
  "world_readonly_config =
     \<lparr>mappings_file = Absent, config_file = Content example_config,
      mappings_writable = True, config_writable = False, log = []\<rparr>"

section \<open>Basic facts\<close>


lemma bind_exc_simps [simp]:
  "bind_exc (Inl e) f = Inl e"
  "bind_exc (Inr v) f = f v"
  by (simp_all add: bind_exc_def)

lemma bind_io_simps [simp]:
  "bind_io (Inl e, w) g = (Inl e, w)"
  "bind_io (Inr v, w) g = g v w"
  by (simp_all add: bind_io_def)

lemma try_except_simps [simp]:
  "try_except (Inl e, w) h = h e w"
  "try_except (Inr v, w) h = (Inr v, w)"
  by (simp_all add: try_except_def)

lemma logger_fields [simp]:
  "mappings_file (logger_error ev w) = mappings_file w"
  "config_file (logger_error ev w) = config_file w"
  "mappings_writable (logger_error ev w) = mappings_writable w"
  "config_writable (logger_error ev w) = config_writable w"
  "log (logger_error ev w) = log w @ [(ERROR, ev)]"
  "mappings_file (logger_info ev w) = mappings_file w"
  "config_file (logger_info ev w) = config_file w"
  "mappings_writable (logger_info ev w) = mappings_writable w"
  "config_writable (logger_info ev w) = config_writable w"
  "log (logger_info ev w) = log w @ [(INFO, ev)]"
  by (simp_all add: logger_error_def logger_info_def)

lemma remove_key_dict [simp]:
  "remove_key (YDict c) k = Inr (YDict (c(k := None)))"
  by (auto simp: remove_key_def)

lemma ensure_section_dict [simp]:
  "ensure_section k (YDict m) = Inr (YDict (if m k = None then m(k \<mapsto> YDict Map.empty) else m))"
  by (simp add: ensure_section_def)

lemma update_config_frame:
  "mappings_file (snd (update_config w)) = mappings_file w \<and>
   mappings_writable (snd (update_config w)) = mappings_writable w \<and>
   config_writable (snd (update_config w)) = config_writable w \<and>
   (\<exists>es. log (snd (update_config w)) = log w @ es)"
proof (cases "read_yaml (config_file w)")
  case (Inl e)
  then show ?thesis by (simp add: update_config_def)
next
  case (Inr config)
  show ?thesis
  proof (cases "remove_key config ''mappings''")
    case (Inl e)
    with Inr show ?thesis by (simp add: update_config_def)
  next
    case c1: (Inr config1)
    show ?thesis
    proof (cases "remove_key config1 ''trakt_mappings''")
      case (Inl e)
      with Inr c1 show ?thesis by (simp add: update_config_def)
    next
      case c2: (Inr config2)
      show ?thesis
      proof (cases "remove_key config2 ''title_mappings''")
        case (Inl e)
        with Inr c1 c2 show ?thesis by (simp add: update_config_def)
      next
        case c3: (Inr config3)
        with Inr c1 c2 show ?thesis
          by (simp add: update_config_def write_config_def)
      qed
    qed
  qed
qed

lemma save_mappings_unwritable:
  "\<not> mappings_writable w \<Longrightarrow> save_mappings d mig w = (Inr False, logger_error (SaveFailed OSError) w)"
  by (simp add: save_mappings_def write_mappings_def)

lemma save_mappings_plain:
  "mappings_writable w \<Longrightarrow>
   save_mappings d False w = (Inr True, logger_info SavedMappings (w\<lparr>mappings_file := Content d\<rparr>))"
  by (simp add: save_mappings_def write_mappings_def)

lemma save_mappings_migrate:
  "mappings_writable w \<Longrightarrow>
   save_mappings d True w =
     (Inr True,
      if path_exists (config_file w)
      then snd (try_except (update_config (logger_info SavedMappings (w\<lparr>mappings_file := Content d\<rparr>)))
                  (\<lambda>e w. (Inr (), logger_error (UpdateConfigFailed e) w)))
      else logger_info SavedMappings (w\<lparr>mappings_file := Content d\<rparr>))"
proof -
  assume wr: "mappings_writable w"
  let ?w1 = "logger_info SavedMappings (w\<lparr>mappings_file := Content d\<rparr>)"
  obtain r w2 where u: "update_config ?w1 = (r, w2)" by (cases "update_config ?w1")
  show ?thesis using wr u
    by (cases r) (simp_all add: save_mappings_def write_mappings_def)
qed

lemma update_config_dict:
  "config_file w = Content (YDict c) \<Longrightarrow> config_writable w \<Longrightarrow>
   update_config w = (Inr (), logger_info UpdatedConfig
     (w\<lparr>config_file := Content (YDict (c(''mappings'' := None, ''trakt_mappings'' := None,
        ''title_mappings'' := None)))\<rparr>))"
  by (simp add: update_config_def read_yaml_def write_config_def)

lemma try_update_config_frame:
  "mappings_file (snd (try_except (update_config w) (\<lambda>e w. (Inr (), logger_error (UpdateConfigFailed e) w)))) = mappings_file w \<and>
   mappings_writable (snd (try_except (update_config w) (\<lambda>e w. (Inr (), logger_error (UpdateConfigFailed e) w)))) = mappings_writable w \<and>
   config_writable (snd (try_except (update_config w) (\<lambda>e w. (Inr (), logger_error (UpdateConfigFailed e) w)))) = config_writable w \<and>
   (\<exists>es. log (snd (try_except (update_config w) (\<lambda>e w. (Inr (), logger_error (UpdateConfigFailed e) w)))) = log w @ es)"
proof -
  obtain r w2 where u: "update_config w = (r, w2)" by (cases "update_config w")
  show ?thesis using update_config_frame [of w] u by (cases r) auto
qed

lemma save_mappings_frame:
  "mappings_file (snd (save_mappings d mig w)) = (if mappings_writable w then Content d else mappings_file w) \<and>
   mappings_writable (snd (save_mappings d mig w)) = mappings_writable w \<and>
   config_writable (snd (save_mappings d mig w)) = config_writable w \<and>
   (\<exists>es. log (snd (save_mappings d mig w)) = log w @ es)"
proof (cases "mappings_writable w")
  case False
  then show ?thesis by (simp add: save_mappings_unwritable)
next
  case True
  show ?thesis
  proof (cases mig)
    case False
    with True show ?thesis by (simp add: save_mappings_plain)
  next
    case mig: True
    show ?thesis
      using True mig try_update_config_frame [of "logger_info SavedMappings (w\<lparr>mappings_file := Content d\<rparr>)"]
      by (auto simp: save_mappings_migrate)
  qed
qed

lemma save_mappings_returns:
  "fst (save_mappings d mig w) = Inr (mappings_writable w)"
  by (cases "mappings_writable w"; cases mig)
     (simp_all add: save_mappings_unwritable save_mappings_plain save_mappings_migrate)


lemma save_mappings_pair:
  "save_mappings d mig w = (Inr (mappings_writable w), snd (save_mappings d mig w))"
  using save_mappings_returns [of d mig w] by (cases "save_mappings d mig w") simp

lemma extract_sections_dict:
  "extract_sections (YDict c) =
     Inr (YDict [''mappings'' \<mapsto> dict_get c ''mappings'' (YDict Map.empty),
                 ''trakt_mappings'' \<mapsto> dict_get c ''trakt_mappings'' (YDict Map.empty),
                 ''title_mappings'' \<mapsto> dict_get c ''title_mappings'' (YDict Map.empty)])"
  by (simp add: extract_sections_def)

lemma load_mappings_config_extracted:
  assumes "config_file w = Content config" and "extract_sections config = Inr doc"
  shows "load_mappings_config w =
    (Inr doc, logger_info AutoMigrated (snd (save_mappings doc True (logger_info MappingsFileNotFound w))))"
  using assms
  by (simp add: load_mappings_config_def read_yaml_def Let_def)
     (subst save_mappings_pair, simp)

lemma load_mappings_config_failed:
  assumes "bind_exc (read_yaml (config_file w)) extract_sections = Inl e"
  shows "load_mappings_config w =
    (Inr empty_document, logger_error (LoadConfigFailed e) (logger_info MappingsFileNotFound w))"
proof (cases "read_yaml (config_file w)")
  case (Inl e')
  with assms show ?thesis by (simp add: load_mappings_config_def Let_def)
next
  case (Inr config)
  with assms show ?thesis by (simp add: load_mappings_config_def Let_def)
qed

lemma load_mappings_config_returns: "\<exists>doc. fst (load_mappings_config w) = Inr doc"
proof (cases "bind_exc (read_yaml (config_file w)) extract_sections")
  case (Inl e)
  then show ?thesis by (simp add: load_mappings_config_failed)
next
  case (Inr doc)
  then obtain config where "config_file w = Content config" and "extract_sections config = Inr doc"
    by (cases "config_file w") (simp_all add: read_yaml_def)
  then show ?thesis by (simp add: load_mappings_config_extracted)
qed

lemma load_mappings_config_frame:
  "mappings_writable (snd (load_mappings_config w)) = mappings_writable w \<and>
   (\<not> mappings_writable w \<longrightarrow> mappings_file (snd (load_mappings_config w)) = mappings_file w) \<and>
   (\<exists>es. log (snd (load_mappings_config w)) = log w @ es)"
proof (cases "bind_exc (read_yaml (config_file w)) extract_sections")
  case (Inl e)
  then show ?thesis by (simp add: load_mappings_config_failed)
next
  case (Inr doc)
  then obtain config where c: "config_file w = Content config" "extract_sections config = Inr doc"
    by (cases "config_file w") (simp_all add: read_yaml_def)
  show ?thesis
    using save_mappings_frame [of doc True "logger_info MappingsFileNotFound w"]
    by (auto simp: load_mappings_config_extracted [OF c])
qed

lemma load_mappings_file_dict:
  "mappings_file w = Content (YDict m) \<Longrightarrow>
   load_mappings_file w =
     Inr (YDict (\<lambda>k. if k \<in> {''mappings'', ''trakt_mappings'', ''title_mappings''} \<and> m k = None
                     then Some (YDict Map.empty) else m k))"
  by (auto simp: load_mappings_file_def read_yaml_def fun_eq_iff)

lemma load_mappings_dict:
  "mappings_file w = Content (YDict m) \<Longrightarrow>
   load_mappings w =
     (Inr (YDict (\<lambda>k. if k \<in> {''mappings'', ''trakt_mappings'', ''title_mappings''} \<and> m k = None
                     then Some (YDict Map.empty) else m k)), w)"
  by (simp add: load_mappings_def load_mappings_file_dict path_exists_def)

lemma load_mappings_returns: "\<exists>doc. fst (load_mappings w) = Inr doc"
proof (cases "path_exists (mappings_file w)")
  case False
  then show ?thesis by (simp add: load_mappings_def load_mappings_config_returns)
next
  case True
  then show ?thesis
    by (cases "load_mappings_file w") (simp_all add: load_mappings_def load_mappings_config_returns)
qed

lemma load_mappings_frame:
  "mappings_writable (snd (load_mappings w)) = mappings_writable w \<and>
   (\<not> mappings_writable w \<longrightarrow> mappings_file (snd (load_mappings w)) = mappings_file w) \<and>
   (\<exists>es. log (snd (load_mappings w)) = log w @ es)"
proof (cases "path_exists (mappings_file w)")
  case False
  then show ?thesis using load_mappings_config_frame [of w] by (simp add: load_mappings_def)
next
  case True
  show ?thesis
  proof (cases "load_mappings_file w")
    case (Inr doc)
    with True show ?thesis by (simp add: load_mappings_def)
  next
    case (Inl e)
    with True show ?thesis
      using load_mappings_config_frame [of "logger_error (LoadMappingsFailed e) w"]
      by (auto simp: load_mappings_def)
  qed
qed



lemma load_mappings_file_failure:
  assumes "path_exists (mappings_file w)" and "load_mappings_file w = Inl e"
  shows "load_mappings w = load_mappings_config (logger_error (LoadMappingsFailed e) w) \<and>
    (ERROR, LoadMappingsFailed e) \<in> set (log (snd (load_mappings w)))"
proof -
  have l: "load_mappings w = load_mappings_config (logger_error (LoadMappingsFailed e) w)"
    using assms by (simp add: load_mappings_def)
  obtain es where "log (snd (load_mappings_config (logger_error (LoadMappingsFailed e) w))) =
      log (logger_error (LoadMappingsFailed e) w) @ es"
    using load_mappings_config_frame [of "logger_error (LoadMappingsFailed e) w"] by blast
  with l show ?thesis by simp
qed

lemma extract_sections_get_at:
  "\<exists>doc. extract_sections (YDict c) = Inr doc \<and>
     get_at doc [''mappings''] = Inr (dict_get c ''mappings'' (YDict Map.empty)) \<and>
     get_at doc [''trakt_mappings''] = Inr (dict_get c ''trakt_mappings'' (YDict Map.empty)) \<and>
     get_at doc [''title_mappings''] = Inr (dict_get c ''title_mappings'' (YDict Map.empty))"
  by (simp add: extract_sections_dict)

lemma example_config_keys:
  "[''mappings'' \<mapsto> YDict [''a'' \<mapsto> YStr ''b''], ''plex'' \<mapsto> YStr ''x'']
     (''mappings'' := None, ''trakt_mappings'' := None, ''title_mappings'' := None) =
   [''plex'' \<mapsto> YStr ''x'']"
  by (auto simp: fun_eq_iff)

lemma example_config_sections:
  "extract_sections example_config =
     Inr (YDict [''mappings'' \<mapsto> YDict [''a'' \<mapsto> YStr ''b''],
                 ''trakt_mappings'' \<mapsto> YDict Map.empty, ''title_mappings'' \<mapsto> YDict Map.empty])"
  by (simp add: example_config_def extract_sections_dict dict_get_def)

lemma save_example_migrate:
  assumes "mappings_writable w" and "config_writable w" and "config_file w = Content example_config"
  shows "snd (save_mappings doc True w) =
     w\<lparr>mappings_file := Content doc, config_file := Content (YDict [''plex'' \<mapsto> YStr ''x'']),
       log := log w @ [(INFO, SavedMappings), (INFO, UpdatedConfig)]\<rparr>"
proof -
  let ?w1 = "logger_info SavedMappings (w\<lparr>mappings_file := Content doc\<rparr>)"
  have "update_config ?w1 = (Inr (), logger_info UpdatedConfig
     (?w1\<lparr>config_file := Content (YDict [''plex'' \<mapsto> YStr ''x''])\<rparr>))"
    using assms update_config_dict [of ?w1 "[''mappings'' \<mapsto> YDict [''a'' \<mapsto> YStr ''b''], ''plex'' \<mapsto> YStr ''x'']"]
    by (simp add: example_config_def example_config_keys)
  then show ?thesis
    using assms by (simp add: save_mappings_migrate path_exists_def logger_info_def)
qed

section \<open>Properties of \<^verbatim>\<open>save_mappings\<close>\<close>

text \<open>
  C7. \<open>save_mappings\<close> never raises and returns \<open>False\<close> exactly when the write of the
  mappings file fails; it has then logged the failure and changed nothing else. When the
  mappings file was written, the migration flag is set, the configuration exists and its
  rewrite raises \<open>e\<close>, the failure is logged and \<open>save_mappings\<close> still returns \<open>True\<close>.
\<close>

theorem save_mappings_reports_write_failure:
  "(\<exists>w'. save_mappings doc migrate w = (Inr (mappings_writable w), w')) \<and>
   (\<not> mappings_writable w \<longrightarrow>
      save_mappings doc migrate w = (Inr False, logger_error (SaveFailed OSError) w)) \<and>
   (\<forall>e w'. mappings_writable w \<and> path_exists (config_file w) \<and>
      update_config (logger_info SavedMappings (w\<lparr>mappings_file := Content doc\<rparr>)) = (Inl e, w') \<longrightarrow>
      save_mappings doc True w = (Inr True, logger_error (UpdateConfigFailed e) w'))"
proof (intro conjI allI impI)
  show "\<exists>w'. save_mappings doc migrate w = (Inr (mappings_writable w), w')"
    using save_mappings_pair [of doc migrate w] by blast
next
  assume "\<not> mappings_writable w"
  then show "save_mappings doc migrate w = (Inr False, logger_error (SaveFailed OSError) w)"
    by (rule save_mappings_unwritable)
next
  fix e w'
  assume "mappings_writable w \<and> path_exists (config_file w) \<and>
      update_config (logger_info SavedMappings (w\<lparr>mappings_file := Content doc\<rparr>)) = (Inl e, w')"
  then show "save_mappings doc True w = (Inr True, logger_error (UpdateConfigFailed e) w')"
    by (simp add: save_mappings_migrate)
qed

theorem save_mappings_reports_write_failure_witness:
  "save_mappings empty_document True world_readonly_config =
     (Inr True,
      world_readonly_config\<lparr>mappings_file := Content empty_document,
        log := [(INFO, SavedMappings), (ERROR, UpdateConfigFailed OSError)]\<rparr>)"
proof -
  let ?w1 = "logger_info SavedMappings (world_readonly_config\<lparr>mappings_file := Content empty_document\<rparr>)"
  have u: "update_config ?w1 = (Inl OSError, ?w1)"
    by (simp add: update_config_def world_readonly_config_def example_config_def read_yaml_def
        write_config_def)
  have "mappings_writable world_readonly_config \<and> path_exists (config_file world_readonly_config) \<and>
      update_config ?w1 = (Inl OSError, ?w1)"
    using u by (simp add: world_readonly_config_def path_exists_def)
  then have "save_mappings empty_document True world_readonly_config =
     (Inr True, logger_error (UpdateConfigFailed OSError) ?w1)"
    using save_mappings_reports_write_failure [of empty_document True world_readonly_config]
    by blast
  then show ?thesis
    by (simp add: logger_error_def logger_info_def world_readonly_config_def)
qed

text \<open>
  C8. For a document \<open>D\<close> that has the three sections, saving \<open>D\<close> and then saving what
  \<open>load_mappings\<close> returns leaves the mappings file as saving \<open>D\<close> alone left it.
\<close>

theorem save_load_save_idempotent:
  assumes "m ''mappings'' \<noteq> None" and "m ''trakt_mappings'' \<noteq> None"
    and "m ''title_mappings'' \<noteq> None"
  shows "\<exists>doc w2. load_mappings (snd (save_mappings (YDict m) False w)) = (Inr doc, w2) \<and>
     mappings_file (snd (save_mappings doc False w2)) =
     mappings_file (snd (save_mappings (YDict m) False w))"
proof (cases "mappings_writable w")
  case True
  let ?w1 = "logger_info SavedMappings (w\<lparr>mappings_file := Content (YDict m)\<rparr>)"
  have s: "save_mappings (YDict m) False w = (Inr True, ?w1)"
    using True by (rule save_mappings_plain)
  have "(\<lambda>k. if k \<in> {''mappings'', ''trakt_mappings'', ''title_mappings''} \<and> m k = None
                     then Some (YDict Map.empty) else m k) = m"
    using assms by (auto simp: fun_eq_iff)
  then have l: "load_mappings ?w1 = (Inr (YDict m), ?w1)"
    using load_mappings_dict [of ?w1 m] by simp
  show ?thesis using True s l by (simp add: save_mappings_plain)
next
  case False
  let ?w1 = "snd (save_mappings (YDict m) False w)"
  have w1: "\<not> mappings_writable ?w1" using False save_mappings_frame [of "YDict m" False w] by simp
  obtain doc where d: "fst (load_mappings ?w1) = Inr doc" using load_mappings_returns by blast
  then have l: "load_mappings ?w1 = (Inr doc, snd (load_mappings ?w1))"
    by (cases "load_mappings ?w1") simp
  have "\<not> mappings_writable (snd (load_mappings ?w1))"
    and "mappings_file (snd (load_mappings ?w1)) = mappings_file ?w1"
    using w1 load_mappings_frame [of ?w1] by simp_all
  then have "mappings_file (snd (save_mappings doc False (snd (load_mappings ?w1)))) = mappings_file ?w1"
    using save_mappings_frame [of doc False "snd (load_mappings ?w1)"] by simp
  with l show ?thesis by blast
qed

theorem save_load_save_idempotent_witness:
  "\<exists>doc w2. load_mappings (snd (save_mappings empty_document False world_readonly_config)) = (Inr doc, w2) \<and>
     mappings_file (snd (save_mappings doc False w2)) = Content empty_document"
proof -
  have "mappings_file (snd (save_mappings empty_document False world_readonly_config)) = Content empty_document"
    by (simp add: save_mappings_plain world_readonly_config_def)
  then show ?thesis
    using save_load_save_idempotent [of "[''mappings'' \<mapsto> YDict Map.empty, ''trakt_mappings'' \<mapsto> YDict Map.empty,
            ''title_mappings'' \<mapsto> YDict Map.empty]" world_readonly_config]
    by (simp add: empty_document_def)
qed

section \<open>Properties of \<^verbatim>\<open>load_mappings\<close>\<close>

text \<open>
  C3. When the mappings file exists and does not parse, \<open>load_mappings\<close> logs the error
  and goes on as the fallback does from there; with a configuration that is a mapping,
  the document returned has the three sections of the configuration, each defaulting to
  the empty mapping, and it has been passed to \<open>save_mappings\<close> with the migration flag.
\<close>

theorem load_mappings_parse_failure:
  assumes "mappings_file w = Malformed"
  shows "load_mappings w = load_mappings_config (logger_error (LoadMappingsFailed YAMLError) w) \<and>
    (ERROR, LoadMappingsFailed YAMLError) \<in> set (log (snd (load_mappings w))) \<and>
    (\<forall>c. config_file w = Content (YDict c) \<longrightarrow>
      (\<exists>doc. extract_sections (YDict c) = Inr doc \<and>
         get_at doc [''mappings''] = Inr (dict_get c ''mappings'' (YDict Map.empty)) \<and>
         get_at doc [''trakt_mappings''] = Inr (dict_get c ''trakt_mappings'' (YDict Map.empty)) \<and>
         get_at doc [''title_mappings''] = Inr (dict_get c ''title_mappings'' (YDict Map.empty)) \<and>
         load_mappings w =
           (Inr doc,
            logger_info AutoMigrated
              (snd (save_mappings doc True
                 (logger_info MappingsFileNotFound
                    (logger_error (LoadMappingsFailed YAMLError) w)))))))"
proof -
  have f: "load_mappings_file w = Inl YAMLError"
    using assms by (simp add: load_mappings_file_def read_yaml_def)
  have p: "path_exists (mappings_file w)"
    using assms by (simp add: path_exists_def)
  note l = load_mappings_file_failure [OF p f]
  have "\<exists>doc. extract_sections (YDict c) = Inr doc \<and>
         get_at doc [''mappings''] = Inr (dict_get c ''mappings'' (YDict Map.empty)) \<and>
         get_at doc [''trakt_mappings''] = Inr (dict_get c ''trakt_mappings'' (YDict Map.empty)) \<and>
         get_at doc [''title_mappings''] = Inr (dict_get c ''title_mappings'' (YDict Map.empty)) \<and>
         load_mappings w =
           (Inr doc,
            logger_info AutoMigrated
              (snd (save_mappings doc True
                 (logger_info MappingsFileNotFound
                    (logger_error (LoadMappingsFailed YAMLError) w)))))"
    if c: "config_file w = Content (YDict c)" for c
  proof -
    obtain doc where d: "extract_sections (YDict c) = Inr doc"
      and g: "get_at doc [''mappings''] = Inr (dict_get c ''mappings'' (YDict Map.empty))"
         "get_at doc [''trakt_mappings''] = Inr (dict_get c ''trakt_mappings'' (YDict Map.empty))"
         "get_at doc [''title_mappings''] = Inr (dict_get c ''title_mappings'' (YDict Map.empty))"
      using extract_sections_get_at [of c] by blast
    have "config_file (logger_error (LoadMappingsFailed YAMLError) w) = Content (YDict c)"
      using c by simp
    from load_mappings_config_extracted [OF this d] l d g show ?thesis by simp
  qed
  with l show ?thesis by blast
qed

theorem load_mappings_parse_failure_witness:
  "load_mappings world_malformed =
     (Inr (YDict [''mappings'' \<mapsto> YDict [''a'' \<mapsto> YStr ''b''], ''trakt_mappings'' \<mapsto> YDict Map.empty,
            ''title_mappings'' \<mapsto> YDict Map.empty]),
      world_malformed\<lparr>
        mappings_file := Content (YDict [''mappings'' \<mapsto> YDict [''a'' \<mapsto> YStr ''b''], ''trakt_mappings'' \<mapsto> YDict Map.empty,
            ''title_mappings'' \<mapsto> YDict Map.empty]),
        config_file := Content (YDict [''plex'' \<mapsto> YStr ''x'']),
        log := [(ERROR, LoadMappingsFailed YAMLError), (INFO, MappingsFileNotFound),
                (INFO, SavedMappings), (INFO, UpdatedConfig), (INFO, AutoMigrated)]\<rparr>)"
proof -
  let ?c = "[''mappings'' \<mapsto> YDict [''a'' \<mapsto> YStr ''b''], ''plex'' \<mapsto> YStr ''x'']"
  let ?w1 = "logger_info MappingsFileNotFound (logger_error (LoadMappingsFailed YAMLError) world_malformed)"
  have m: "mappings_file world_malformed = Malformed"
    by (simp add: world_malformed_def)
  have c: "config_file world_malformed = Content (YDict ?c)"
    by (simp add: world_malformed_def example_config_def)
  have "\<exists>doc. extract_sections (YDict ?c) = Inr doc \<and>
      load_mappings world_malformed = (Inr doc, logger_info AutoMigrated (snd (save_mappings doc True ?w1)))"
    using load_mappings_parse_failure [OF m] c by blast
  then have "load_mappings world_malformed =
      (Inr (YDict [''mappings'' \<mapsto> YDict [''a'' \<mapsto> YStr ''b''], ''trakt_mappings'' \<mapsto> YDict Map.empty,
            ''title_mappings'' \<mapsto> YDict Map.empty]),
       logger_info AutoMigrated (snd (save_mappings (YDict [''mappings'' \<mapsto> YDict [''a'' \<mapsto> YStr ''b''],
            ''trakt_mappings'' \<mapsto> YDict Map.empty, ''title_mappings'' \<mapsto> YDict Map.empty]) True ?w1)))"
    using example_config_sections by (auto simp: example_config_def)
  moreover have "mappings_writable ?w1" "config_writable ?w1" "config_file ?w1 = Content example_config"
    by (simp_all add: world_malformed_def)
  ultimately show ?thesis
    by (simp add: save_example_migrate) (simp add: logger_info_def logger_error_def world_malformed_def)
qed

text \<open>
  C10. When the mappings file exists and parses to \<^verbatim>\<open>None\<close> (an empty file), the first
  membership test raises \<^verbatim>\<open>TypeError\<close>; \<open>load_mappings\<close> logs it and goes on as the
  fallback does from there, so a configuration whose sections can be extracted is
  migrated: the extracted document is passed to \<open>save_mappings\<close> with the migration flag
  and returned.
\<close>

theorem load_mappings_null_document:
  assumes "mappings_file w = Content YNull"
  shows "load_mappings_file w = Inl TypeError \<and>
    load_mappings w = load_mappings_config (logger_error (LoadMappingsFailed TypeError) w) \<and>
    (ERROR, LoadMappingsFailed TypeError) \<in> set (log (snd (load_mappings w))) \<and>
    (\<forall>config doc. config_file w = Content config \<and> extract_sections config = Inr doc \<longrightarrow>
       load_mappings w =
         (Inr doc,
          logger_info AutoMigrated
            (snd (save_mappings doc True
               (logger_info MappingsFileNotFound
                  (logger_error (LoadMappingsFailed TypeError) w))))))"
proof -
  have f: "load_mappings_file w = Inl TypeError"
    using assms by (simp add: load_mappings_file_def read_yaml_def ensure_section_def)
  have p: "path_exists (mappings_file w)"
    using assms by (simp add: path_exists_def)
  note l = load_mappings_file_failure [OF p f]
  have "load_mappings w =
         (Inr doc,
          logger_info AutoMigrated
            (snd (save_mappings doc True
               (logger_info MappingsFileNotFound
                  (logger_error (LoadMappingsFailed TypeError) w)))))"
    if "config_file w = Content config \<and> extract_sections config = Inr doc" for config doc
  proof -
    from that have "config_file (logger_error (LoadMappingsFailed TypeError) w) = Content config"
      and "extract_sections config = Inr doc" by simp_all
    from load_mappings_config_extracted [OF this] l show ?thesis by simp
  qed
  with f l show ?thesis by blast
qed

theorem load_mappings_null_document_witness:
  "load_mappings world_empty_file =
     (Inr (YDict [''mappings'' \<mapsto> YDict [''a'' \<mapsto> YStr ''b''], ''trakt_mappings'' \<mapsto> YDict Map.empty,
            ''title_mappings'' \<mapsto> YDict Map.empty]),
      world_empty_file\<lparr>
        mappings_file := Content (YDict [''mappings'' \<mapsto> YDict [''a'' \<mapsto> YStr ''b''],
            ''trakt_mappings'' \<mapsto> YDict Map.empty, ''title_mappings'' \<mapsto> YDict Map.empty]),
        config_file := Content (YDict [''plex'' \<mapsto> YStr ''x'']),
        log := [(ERROR, LoadMappingsFailed TypeError), (INFO, MappingsFileNotFound),
                (INFO, SavedMappings), (INFO, UpdatedConfig), (INFO, AutoMigrated)]\<rparr>)"
proof -
  let ?doc = "YDict [''mappings'' \<mapsto> YDict [''a'' \<mapsto> YStr ''b''], ''trakt_mappings'' \<mapsto> YDict Map.empty,
            ''title_mappings'' \<mapsto> YDict Map.empty]"
  let ?w1 = "logger_info MappingsFileNotFound (logger_error (LoadMappingsFailed TypeError) world_empty_file)"
  have m: "mappings_file world_empty_file = Content YNull"
    by (simp add: world_empty_file_def)
  have c: "config_file world_empty_file = Content example_config \<and>
      extract_sections example_config = Inr ?doc"
    by (simp add: world_empty_file_def example_config_sections)
  have "load_mappings world_empty_file =
      (Inr ?doc, logger_info AutoMigrated (snd (save_mappings ?doc True ?w1)))"
    using load_mappings_null_document [OF m] c by blast
  moreover have "mappings_writable ?w1" "config_writable ?w1" "config_file ?w1 = Content example_config"
    by (simp_all add: world_empty_file_def)
  ultimately show ?thesis
    by (simp add: save_example_migrate) (simp add: logger_info_def logger_error_def world_empty_file_def)
qed

section \<open>Properties of \<^verbatim>\<open>migrate_mappings_from_config\<close>\<close>

text \<open>
  What the migration leaves in the mappings file is what \<open>load_mappings\<close> returned, when
  the state after loading can be written.
\<close>

lemma migrate_after_load:
  assumes "load_mappings w = (Inr doc, w1)" and "mappings_writable w1"
  shows "migrate_mappings_from_config w = (Inr True, snd (save_mappings doc True w1))"
proof -
  have s: "save_mappings doc True w1 = (Inr True, snd (save_mappings doc True w1))"
    using save_mappings_pair [of doc True w1] assms(2) by simp
  show ?thesis
    unfolding migrate_mappings_from_config_def assms(1)
    by (simp only: bind_io_simps) (subst s, simp only: try_except_simps)
qed

lemma load_world_empty_file:
  "load_mappings world_empty_file =
     (Inr (YDict [''mappings'' \<mapsto> YDict [''a'' \<mapsto> YStr ''b''], ''trakt_mappings'' \<mapsto> YDict Map.empty,
            ''title_mappings'' \<mapsto> YDict Map.empty]),
      logger_info AutoMigrated
        (snd (save_mappings
           (YDict [''mappings'' \<mapsto> YDict [''a'' \<mapsto> YStr ''b''], ''trakt_mappings'' \<mapsto> YDict Map.empty,
              ''title_mappings'' \<mapsto> YDict Map.empty])
           True
           (logger_info MappingsFileNotFound
              (logger_error (LoadMappingsFailed TypeError) world_empty_file)))))"
proof -
  have f: "load_mappings_file world_empty_file = Inl TypeError"
    by (simp add: load_mappings_file_def read_yaml_def ensure_section_def world_empty_file_def)
  have p: "path_exists (mappings_file world_empty_file)"
    by (simp add: path_exists_def world_empty_file_def)
  have c: "config_file (logger_error (LoadMappingsFailed TypeError) world_empty_file) =
      Content example_config"
    by (simp add: world_empty_file_def)
  from load_mappings_file_failure [OF p f]
    load_mappings_config_extracted [OF c example_config_sections]
  show ?thesis by simp
qed

lemma migrate_world_empty_file:
  "fst (migrate_mappings_from_config world_empty_file) = Inr True \<and>
   mappings_file (snd (migrate_mappings_from_config world_empty_file)) =
     Content (YDict [''mappings'' \<mapsto> YDict [''a'' \<mapsto> YStr ''b''],
                     ''trakt_mappings'' \<mapsto> YDict Map.empty, ''title_mappings'' \<mapsto> YDict Map.empty])"
proof -
  let ?doc = "YDict [''mappings'' \<mapsto> YDict [''a'' \<mapsto> YStr ''b''], ''trakt_mappings'' \<mapsto> YDict Map.empty,
            ''title_mappings'' \<mapsto> YDict Map.empty]"
  let ?w1 = "logger_info AutoMigrated
        (snd (save_mappings ?doc True
           (logger_info MappingsFileNotFound
              (logger_error (LoadMappingsFailed TypeError) world_empty_file))))"
  have wr: "mappings_writable ?w1"
    using save_mappings_frame [of ?doc True "logger_info MappingsFileNotFound
              (logger_error (LoadMappingsFailed TypeError) world_empty_file)"]
    by (simp add: world_empty_file_def)
  have "mappings_file (snd (save_mappings ?doc True ?w1)) = Content ?doc"
    using save_mappings_frame [of ?doc True ?w1] wr by simp
  with migrate_after_load [OF load_world_empty_file wr] show ?thesis by simp
qed

lemma migrate_world_partial_file:
  "mappings_file (snd (migrate_mappings_from_config world_partial_file)) =
     Content (YDict [''mappings'' \<mapsto> YDict [''c'' \<mapsto> YStr ''d''],
                     ''trakt_mappings'' \<mapsto> YDict Map.empty, ''title_mappings'' \<mapsto> YDict Map.empty])"
proof -
  let ?m = "[''mappings'' \<mapsto> YDict [''c'' \<mapsto> YStr ''d'']]"
  let ?doc = "YDict [''mappings'' \<mapsto> YDict [''c'' \<mapsto> YStr ''d''],
                     ''trakt_mappings'' \<mapsto> YDict Map.empty, ''title_mappings'' \<mapsto> YDict Map.empty]"
  have "mappings_file world_partial_file = Content (YDict ?m)"
    by (simp add: world_partial_file_def)
  from load_mappings_dict [OF this]
  have l: "load_mappings world_partial_file = (Inr ?doc, world_partial_file)"
    by (simp add: fun_eq_iff)
  have wr: "mappings_writable world_partial_file"
    by (simp add: world_partial_file_def)
  have "mappings_file (snd (save_mappings ?doc True world_partial_file)) = Content ?doc"
    using save_mappings_frame [of ?doc True world_partial_file] wr by simp
  with migrate_after_load [OF l wr] show ?thesis by simp
qed

text \<open>
  C9, as amended. When the mappings file exists and parses to a mapping, the configuration
  is a mapping and both files can be written, \<open>migrate_mappings_from_config\<close> returns
  \<open>True\<close> and writes to the mappings file that file's own document with each absent
  section among the three filled in by an empty mapping (the document itself when the
  three sections are there), whatever the configuration holds, and removes the three keys
  from the configuration: entries that only the configuration had are in neither file.
\<close>

theorem migrate_keeps_existing_mappings_file:
  assumes "mappings_file w = Content (YDict m)" and "mappings_writable w"
    and "config_file w = Content (YDict c)" and "config_writable w"
  shows "\<exists>w'. migrate_mappings_from_config w = (Inr True, w') \<and>
    mappings_file w' =
      Content (YDict (\<lambda>k. if k \<in> {''mappings'', ''trakt_mappings'', ''title_mappings''} \<and> m k = None
                          then Some (YDict Map.empty) else m k)) \<and>
    config_file w' =
      Content (YDict (c(''mappings'' := None, ''trakt_mappings'' := None, ''title_mappings'' := None))) \<and>
    (m ''mappings'' \<noteq> None \<and> m ''trakt_mappings'' \<noteq> None \<and> m ''title_mappings'' \<noteq> None \<longrightarrow>
       mappings_file w' = mappings_file w)"
proof -
  let ?m' = "\<lambda>k. if k \<in> {''mappings'', ''trakt_mappings'', ''title_mappings''} \<and> m k = None
                          then Some (YDict Map.empty) else m k"
  let ?w1 = "logger_info SavedMappings (w\<lparr>mappings_file := Content (YDict ?m')\<rparr>)"
  have l: "load_mappings w = (Inr (YDict ?m'), w)"
    using assms(1) by (rule load_mappings_dict)
  have u: "update_config ?w1 = (Inr (), logger_info UpdatedConfig
     (?w1\<lparr>config_file := Content (YDict (c(''mappings'' := None, ''trakt_mappings'' := None,
        ''title_mappings'' := None)))\<rparr>))"
    using assms(3,4) by (simp add: update_config_dict)
  have s: "save_mappings (YDict ?m') True w = (Inr True, logger_info UpdatedConfig
     (?w1\<lparr>config_file := Content (YDict (c(''mappings'' := None, ''trakt_mappings'' := None,
        ''title_mappings'' := None)))\<rparr>))"
    using assms(2,3) u by (simp add: save_mappings_migrate path_exists_def)
  have e: "?m' = m" if "m ''mappings'' \<noteq> None \<and> m ''trakt_mappings'' \<noteq> None \<and> m ''title_mappings'' \<noteq> None"
    using that by (auto simp: fun_eq_iff)
  show ?thesis
    using l s e assms(1) by (auto simp: migrate_mappings_from_config_def)
qed

theorem migrate_keeps_existing_mappings_file_witness:
  "fst (migrate_mappings_from_config world_partial_file) = Inr True \<and>
   mappings_file (snd (migrate_mappings_from_config world_partial_file)) =
     Content (YDict [''mappings'' \<mapsto> YDict [''c'' \<mapsto> YStr ''d''],
                     ''trakt_mappings'' \<mapsto> YDict Map.empty, ''title_mappings'' \<mapsto> YDict Map.empty]) \<and>
   config_file (snd (migrate_mappings_from_config world_partial_file)) =
     Content (YDict [''plex'' \<mapsto> YStr ''x''])"
proof -
  let ?m = "[''mappings'' \<mapsto> YDict [''c'' \<mapsto> YStr ''d'']]"
  let ?c = "[''mappings'' \<mapsto> YDict [''a'' \<mapsto> YStr ''b''], ''plex'' \<mapsto> YStr ''x'']"
  have h: "mappings_file world_partial_file = Content (YDict ?m)" "mappings_writable world_partial_file"
    "config_file world_partial_file = Content (YDict ?c)" "config_writable world_partial_file"
    by (simp_all add: world_partial_file_def example_config_def)
  have b: "(\<lambda>k. if k \<in> {''mappings'', ''trakt_mappings'', ''title_mappings''} \<and> ?m k = None
                          then Some (YDict Map.empty) else ?m k) =
     [''mappings'' \<mapsto> YDict [''c'' \<mapsto> YStr ''d''],
                     ''trakt_mappings'' \<mapsto> YDict Map.empty, ''title_mappings'' \<mapsto> YDict Map.empty]"
    by (auto simp: fun_eq_iff)
  show ?thesis
    using migrate_keeps_existing_mappings_file [OF h] unfolding b example_config_keys by auto
qed

text \<open>
  C9 as first stated spoke of a mappings file that exists and parses, and of its own
  content being written back. An empty mappings file exists and parses, to \<^verbatim>\<open>None\<close>:
  there the migration writes the sections of the configuration, entry \<^verbatim>\<open>a\<close> included,
  and the file is no longer what it was. A mappings file with one section only does not
  get its own content back either: the two absent sections are added.
\<close>

theorem migrate_existing_file_counterexample:
  "path_exists (mappings_file world_empty_file) \<and>
   read_yaml (mappings_file world_empty_file) = Inr YNull \<and>
   get_at example_config [''mappings'', ''a''] = Inr (YStr ''b'') \<and>
   fst (migrate_mappings_from_config world_empty_file) = Inr True \<and>
   mappings_file (snd (migrate_mappings_from_config world_empty_file)) =
     Content (YDict [''mappings'' \<mapsto> YDict [''a'' \<mapsto> YStr ''b''],
                     ''trakt_mappings'' \<mapsto> YDict Map.empty, ''title_mappings'' \<mapsto> YDict Map.empty]) \<and>
   mappings_file (snd (migrate_mappings_from_config world_empty_file)) \<noteq>
     mappings_file world_empty_file \<and>
   mappings_file (snd (migrate_mappings_from_config world_partial_file)) \<noteq>
     mappings_file world_partial_file"
proof -
  have "[''mappings'' \<mapsto> YDict [''c'' \<mapsto> YStr ''d''],
         ''trakt_mappings'' \<mapsto> YDict Map.empty, ''title_mappings'' \<mapsto> YDict Map.empty] \<noteq>
        [''mappings'' \<mapsto> YDict [''c'' \<mapsto> YStr ''d'']]"
  proof
    assume "[''mappings'' \<mapsto> YDict [''c'' \<mapsto> YStr ''d''],
         ''trakt_mappings'' \<mapsto> YDict Map.empty, ''title_mappings'' \<mapsto> YDict Map.empty] =
        [''mappings'' \<mapsto> YDict [''c'' \<mapsto> YStr ''d'']]"
    from fun_cong [OF this, of "''trakt_mappings''"] show False by simp
  qed
  then have "mappings_file (snd (migrate_mappings_from_config world_partial_file)) \<noteq>
     mappings_file world_partial_file"
    by (simp add: migrate_world_partial_file) (simp add: world_partial_file_def)
  then show ?thesis
    using migrate_world_empty_file
    by (simp add: world_empty_file_def path_exists_def read_yaml_def example_config_def)
qed

text \<open>
  Without a mappings file the migration does move the sections: the mappings file
  receives what the configuration held, and the configuration loses the three keys only.
\<close>

lemma migrate_without_mappings_file:
  assumes "mappings_file w = Absent" and "mappings_writable w" and "config_writable w"
    and "config_file w = Content (YDict c)"
  shows "\<exists>w' doc. migrate_mappings_from_config w = (Inr True, w') \<and>
     mappings_file w' = Content doc \<and>
     get_at doc [''mappings''] = Inr (dict_get c ''mappings'' (YDict Map.empty)) \<and>
     config_file w' =
       Content (YDict (c(''mappings'' := None, ''trakt_mappings'' := None, ''title_mappings'' := None)))"
proof -
  let ?doc = "YDict [''mappings'' \<mapsto> dict_get c ''mappings'' (YDict Map.empty),
                 ''trakt_mappings'' \<mapsto> dict_get c ''trakt_mappings'' (YDict Map.empty),
                 ''title_mappings'' \<mapsto> dict_get c ''title_mappings'' (YDict Map.empty)]"
  let ?c' = "c(''mappings'' := None, ''trakt_mappings'' := None, ''title_mappings'' := None)"
  let ?w0 = "logger_info MappingsFileNotFound w"
  let ?s = "\<lambda>w. logger_info UpdatedConfig
     ((logger_info SavedMappings (w\<lparr>mappings_file := Content ?doc\<rparr>))\<lparr>config_file := Content (YDict ?c')\<rparr>)"
  have s: "save_mappings ?doc True v = (Inr True, ?s v)"
    if "mappings_writable v" "config_writable v" "config_file v = Content (YDict c')"
      "c'(''mappings'' := None, ''trakt_mappings'' := None, ''title_mappings'' := None) = ?c'" for v c'
    using that update_config_dict [of "logger_info SavedMappings (v\<lparr>mappings_file := Content ?doc\<rparr>)" c']
    by (simp add: save_mappings_migrate path_exists_def)
  have l: "load_mappings w = (Inr ?doc, logger_info AutoMigrated (?s ?w0))"
    using assms load_mappings_config_extracted [OF assms(4) extract_sections_dict] s [of ?w0 c]
    by (simp add: load_mappings_def path_exists_def)
  have "save_mappings ?doc True (logger_info AutoMigrated (?s ?w0)) =
      (Inr True, ?s (logger_info AutoMigrated (?s ?w0)))"
    using assms by (intro s [of _ ?c']) simp_all
  with l show ?thesis
    by (simp add: migrate_mappings_from_config_def)
qed

text \<open>
  C4. The claim: after \<open>migrate_mappings_from_config\<close> on a configuration that holds
  \<^verbatim>\<open>mappings: {a: b}\<close>, the mappings file holds \<^verbatim>\<open>mappings: {a: b}\<close>. With a mappings
  file already there the function returns \<open>True\<close>, the mappings file keeps its own content,
  which has no entry for \<^verbatim>\<open>a\<close>, and the configuration has lost its \<^verbatim>\<open>mappings\<close> key:
  the entry is in neither file.
\<close>

theorem migrate_discards_config_mappings:
  "fst (migrate_mappings_from_config world_both_files) = Inr True \<and>
   mappings_file (snd (migrate_mappings_from_config world_both_files)) = Content empty_document \<and>
   get_at empty_document [''mappings'', ''a''] = Inl KeyError \<and>
   get_at example_config [''mappings'', ''a''] = Inr (YStr ''b'') \<and>
   config_file (snd (migrate_mappings_from_config world_both_files)) =
     Content (YDict [''plex'' \<mapsto> YStr ''x''])"
proof -
  have l: "load_mappings world_both_files = (Inr empty_document, world_both_files)"
  proof -
    have "mappings_file world_both_files =
      Content (YDict [''mappings'' \<mapsto> YDict Map.empty, ''trakt_mappings'' \<mapsto> YDict Map.empty,
            ''title_mappings'' \<mapsto> YDict Map.empty])"
      by (simp add: world_both_files_def empty_document_def)
    from load_mappings_dict [OF this] show ?thesis
      by (simp add: empty_document_def fun_eq_iff)
  qed
  have w: "mappings_writable world_both_files" "config_writable world_both_files"
     "config_file world_both_files = Content example_config"
    by (simp_all add: world_both_files_def)
  have s: "save_mappings empty_document True world_both_files =
     (Inr True, snd (save_mappings empty_document True world_both_files))"
    using save_mappings_pair [of empty_document True world_both_files] w by simp
  have m: "migrate_mappings_from_config world_both_files =
     (Inr True, snd (save_mappings empty_document True world_both_files))"
    by (simp add: migrate_mappings_from_config_def l) (subst s, simp)
  show ?thesis
    by (simp add: m save_example_migrate [OF w])
       (simp add: empty_document_def example_config_def)
qed

section \<open>Null sections\<close>

lemma load_world_null_section:
  "load_mappings world_null_section = (Inr null_section_document, world_null_section)"
proof -
  have "mappings_file world_null_section =
      Content (YDict [''mappings'' \<mapsto> YNull, ''trakt_mappings'' \<mapsto> YDict Map.empty,
            ''title_mappings'' \<mapsto> YDict Map.empty])"
    by (simp add: world_null_section_def null_section_document_def)
  from load_mappings_dict [OF this] show ?thesis
    by (simp add: null_section_document_def fun_eq_iff)
qed

text \<open>
  C1. The claim: every document \<open>load_mappings\<close> returns has the three sections present
  and not null. A mappings file whose \<^verbatim>\<open>mappings\<close> key is null is returned with the null
  section, and so is the document taken from a configuration whose \<^verbatim>\<open>mappings\<close> key is
  null: the membership test and \<^verbatim>\<open>dict.get\<close> look at the key only.
\<close>

theorem load_mappings_keeps_null_section:
  "fst (load_mappings world_null_section) = Inr null_section_document \<and>
   get_at null_section_document [''mappings''] = Inr YNull \<and>
   fst (load_mappings world_null_config) = Inr null_section_document"
proof -
  have "extract_sections (YDict [''mappings'' \<mapsto> YNull]) = Inr null_section_document"
    by (simp add: extract_sections_dict dict_get_def null_section_document_def)
  moreover have "config_file world_null_config = Content (YDict [''mappings'' \<mapsto> YNull])"
    by (simp add: world_null_config_def)
  ultimately have "fst (load_mappings_config world_null_config) = Inr null_section_document"
    by (simp add: load_mappings_config_extracted)
  then have "fst (load_mappings world_null_config) = Inr null_section_document"
    by (simp add: load_mappings_def world_null_config_def path_exists_def)
  then show ?thesis
    by (simp add: load_world_null_section) (simp add: null_section_document_def)
qed

text \<open>
  C2. The claim: no public operation lets an exception reach the caller.
  \<open>get_plex_name\<close> has no handler: on a mappings file whose \<^verbatim>\<open>mappings\<close> key is null it
  raises \<^verbatim>\<open>AttributeError\<close>, and on a name mapped to a number it raises \<^verbatim>\<open>TypeError\<close>.
\<close>

theorem get_plex_name_raises:
  "fst (get_plex_name ''one-piece'' world_null_section) = Inl AttributeError \<and>
   fst (get_plex_name ''one-piece'' world_int_name) = Inl TypeError"
proof -
  have "mappings_file world_int_name = Content (YDict [''mappings'' \<mapsto> YDict [''one-piece'' \<mapsto> YInt 1]])"
    by (simp add: world_int_name_def)
  from load_mappings_dict [OF this]
  have "fst (get_plex_name ''one-piece'' world_int_name) = Inl TypeError"
    by (simp add: get_plex_name_def dict_get_def)
  moreover have "fst (get_plex_name ''one-piece'' world_null_section) = Inl AttributeError"
    by (simp add: get_plex_name_def load_world_null_section)
       (simp add: null_section_document_def dict_get_def)
  ultimately show ?thesis by simp
qed

section \<open>Properties of \<^verbatim>\<open>get_plex_name\<close>\<close>








section \<open>Properties of \<^verbatim>\<open>add_title_mapping\<close>\<close>

lemma bind_exc_Inr_iff: "bind_exc r f = Inr y \<longleftrightarrow> (\<exists>x. r = Inr x \<and> f x = Inr y)"
  by (cases r) simp_all

lemma py_getitem_Inr_iff: "py_getitem c k = Inr v \<longleftrightarrow> (\<exists>m. c = YDict m \<and> m k = Some v)"
  by (cases c) (auto split: option.splits)

lemma py_setitem_Inr_iff: "py_setitem c k v = Inr c' \<longleftrightarrow> (\<exists>m. c = YDict m \<and> c' = YDict (m(k \<mapsto> v)))"
  by (cases c) auto

lemma set_at_then_get_at:
  "set_at c ps k v = Inr c' \<Longrightarrow> get_at c' (ps @ [k]) = Inr v"
proof (induction ps arbitrary: c c')
  case Nil
  then show ?case by (auto simp: py_setitem_Inr_iff)
next
  case (Cons p ps)
  then show ?case
    by (auto simp: bind_exc_Inr_iff py_setitem_Inr_iff py_getitem_Inr_iff)
qed

lemma title_mapping_update_entry:
  assumes "title_mapping_update a e t doc = Inr doc'"
  shows "get_at doc' [''title_mappings'', a, ''special_matches'', e] = Inr (YStr t)"
proof -
  from assms obtain m3 where
    "set_at m3 [''title_mappings'', a, ''special_matches''] e (YStr t) = Inr doc'"
    unfolding title_mapping_update_def bind_exc_Inr_iff by blast
  from set_at_then_get_at [OF this] show ?thesis by simp
qed

lemma get_at_4_Inr:
  assumes "get_at doc [k1, k2, k3, k4] = Inr v"
  obtains d1 d2 d3 d4 where "doc = YDict d1" and "d1 k1 = Some (YDict d2)"
    and "d2 k2 = Some (YDict d3)" and "d3 k3 = Some (YDict d4)" and "d4 k4 = Some v"
  using assms by (auto simp: bind_exc_Inr_iff py_getitem_Inr_iff)

lemma title_mapping_update_existing:
  assumes "d ''title_mappings'' = Some (YDict tm)" and "tm a = Some (YDict sh)"
    and "sh ''special_matches'' = Some (YDict sm)"
  shows "title_mapping_update a e t (YDict d) =
     Inr (YDict (d(''title_mappings'' \<mapsto> YDict (tm(a \<mapsto> YDict (sh(''special_matches'' \<mapsto>
        YDict (sm(e \<mapsto> YStr t)))))))))"
  using assms by (simp add: title_mapping_update_def absent_or_none_def)

lemma title_mapping_update_keeps:
  assumes "get_at doc [''title_mappings'', a, ''special_matches'', e] = Inr v" and "e2 \<noteq> e"
  shows "\<exists>doc'. title_mapping_update a e2 t2 doc = Inr doc' \<and>
     get_at doc' [''title_mappings'', a, ''special_matches'', e] = Inr v"
proof -
  from assms(1) obtain d tm sh sm where "doc = YDict d" and "d ''title_mappings'' = Some (YDict tm)"
    and "tm a = Some (YDict sh)" and "sh ''special_matches'' = Some (YDict sm)" and "sm e = Some v"
    by (rule get_at_4_Inr)
  then show ?thesis
    using assms(2) by (simp add: title_mapping_update_existing)
qed

lemma add_title_mapping_steps:
  assumes "load_mappings w = (Inr doc, w0)"
  shows "add_title_mapping a e t w =
     (case title_mapping_update a e t doc of
        Inl err \<Rightarrow> (Inr False, logger_error (Traceback err) (logger_error (AddTitleFailed err) w0))
      | Inr doc' \<Rightarrow>
          if mappings_writable w0
          then (Inr True, logger_info SavedMappings (w0\<lparr>mappings_file := Content doc'\<rparr>))
          else (Inr False, logger_error (SaveFailed OSError) w0))"
  using assms
  by (cases "title_mapping_update a e t doc")
     (simp_all add: add_title_mapping_def save_mappings_plain save_mappings_unwritable)

lemma add_title_mapping_True:
  assumes "add_title_mapping a e t w = (Inr True, w1)"
  obtains doc w0 doc' where "load_mappings w = (Inr doc, w0)"
    and "title_mapping_update a e t doc = Inr doc'" and "mappings_writable w0"
    and "w1 = logger_info SavedMappings (w0\<lparr>mappings_file := Content doc'\<rparr>)"
proof -
  obtain doc where "fst (load_mappings w) = Inr doc" using load_mappings_returns by blast
  then have l: "load_mappings w = (Inr doc, snd (load_mappings w))"
    by (cases "load_mappings w") simp
  from assms add_title_mapping_steps [OF l, of a e t] that [OF l] show thesis
    by (cases "title_mapping_update a e t doc") (auto split: if_splits)
qed

lemma load_mappings_after_write:
  assumes "mappings_file w = Content doc" and "get_at doc [''title_mappings'', a, k, e] = Inr v"
  shows "\<exists>doc'. load_mappings w = (Inr doc', w) \<and>
     (\<forall>e'. get_at doc' [''title_mappings'', a, k, e'] = get_at doc [''title_mappings'', a, k, e'])"
proof -
  from assms(2) obtain d tm where d: "doc = YDict d" and "d ''title_mappings'' = Some (YDict tm)"
    by (rule get_at_4_Inr)
  then show ?thesis
    using load_mappings_dict [of w d] assms(1) by auto
qed

lemma load_world_both_files:
  "load_mappings world_both_files = (Inr empty_document, world_both_files)"
proof -
  have "mappings_file world_both_files =
      Content (YDict [''mappings'' \<mapsto> YDict Map.empty, ''trakt_mappings'' \<mapsto> YDict Map.empty,
            ''title_mappings'' \<mapsto> YDict Map.empty])"
    by (simp add: world_both_files_def empty_document_def)
  from load_mappings_dict [OF this] show ?thesis
    by (simp add: empty_document_def fun_eq_iff)
qed

lemma first_title_mapping:
  "title_mapping_update ''Naruto'' ''Ep 1'' ''Enter Naruto'' empty_document =
     Inr (YDict [''mappings'' \<mapsto> YDict Map.empty, ''trakt_mappings'' \<mapsto> YDict Map.empty,
         ''title_mappings'' \<mapsto> YDict [''Naruto'' \<mapsto> YDict [''special_matches'' \<mapsto>
            YDict [''Ep 1'' \<mapsto> YStr ''Enter Naruto'']]]])"
  by (simp add: title_mapping_update_def absent_or_none_def empty_document_def)

text \<open>
  C5. After \<open>add_title_mapping\<close> has returned \<open>True\<close>, \<open>load_mappings\<close> returns a
  document whose \<^verbatim>\<open>title_mappings[show]["special_matches"][episode]\<close> is the title
  given; a second call for another episode of the same show then returns \<open>True\<close> as well,
  and the document loaded after it has both entries.
\<close>

theorem add_title_mapping_then_load:
  assumes "add_title_mapping anime_name episode_title trakt_title w = (Inr True, w1)"
  shows "(\<exists>doc. load_mappings w1 = (Inr doc, w1) \<and>
            get_at doc [''title_mappings'', anime_name, ''special_matches'', episode_title] =
              Inr (YStr trakt_title)) \<and>
         (episode2 \<noteq> episode_title \<longrightarrow>
           (\<exists>w2 doc2. add_title_mapping anime_name episode2 title2 w1 = (Inr True, w2) \<and>
              load_mappings w2 = (Inr doc2, w2) \<and>
              get_at doc2 [''title_mappings'', anime_name, ''special_matches'', episode_title] =
                Inr (YStr trakt_title) \<and>
              get_at doc2 [''title_mappings'', anime_name, ''special_matches'', episode2] =
                Inr (YStr title2)))"
proof -
  let ?path = "\<lambda>e. [''title_mappings'', anime_name, ''special_matches'', e]"
  from assms obtain doc0 w0 doc' where "load_mappings w = (Inr doc0, w0)"
    and u: "title_mapping_update anime_name episode_title trakt_title doc0 = Inr doc'"
    and wr: "mappings_writable w0"
    and w1: "w1 = logger_info SavedMappings (w0\<lparr>mappings_file := Content doc'\<rparr>)"
    by (rule add_title_mapping_True)
  have f1: "mappings_file w1 = Content doc'" and wr1: "mappings_writable w1"
    using w1 wr by simp_all
  have g: "get_at doc' (?path episode_title) = Inr (YStr trakt_title)"
    using u by (rule title_mapping_update_entry)
  from load_mappings_after_write [OF f1 g] obtain doc where l1: "load_mappings w1 = (Inr doc, w1)"
    and same: "\<And>e'. get_at doc (?path e') = get_at doc' (?path e')"
    by blast
  have g1: "get_at doc (?path episode_title) = Inr (YStr trakt_title)"
    using same g by simp
  have second: "\<exists>w2 doc2. add_title_mapping anime_name episode2 title2 w1 = (Inr True, w2) \<and>
              load_mappings w2 = (Inr doc2, w2) \<and>
              get_at doc2 (?path episode_title) = Inr (YStr trakt_title) \<and>
              get_at doc2 (?path episode2) = Inr (YStr title2)"
    if ne: "episode2 \<noteq> episode_title"
  proof -
    from title_mapping_update_keeps [OF g1 ne] obtain doc'' where
      u2: "title_mapping_update anime_name episode2 title2 doc = Inr doc''"
      and k: "get_at doc'' (?path episode_title) = Inr (YStr trakt_title)"
      by blast
    let ?w2 = "logger_info SavedMappings (w1\<lparr>mappings_file := Content doc''\<rparr>)"
    have a2: "add_title_mapping anime_name episode2 title2 w1 = (Inr True, ?w2)"
      using add_title_mapping_steps [OF l1, of anime_name episode2 title2] u2 wr1 by simp
    have f2: "mappings_file ?w2 = Content doc''" by simp
    from load_mappings_after_write [OF f2 k] obtain doc2 where l2: "load_mappings ?w2 = (Inr doc2, ?w2)"
      and same2: "\<And>e'. get_at doc2 (?path e') = get_at doc'' (?path e')"
      by blast
    have "get_at doc'' (?path episode2) = Inr (YStr title2)"
      using u2 by (rule title_mapping_update_entry)
    with a2 l2 same2 k show ?thesis by auto
  qed
  from l1 g1 second show ?thesis by blast
qed

theorem add_title_mapping_then_load_witness:
  "\<exists>w1 w2 doc2.
     add_title_mapping ''Naruto'' ''Ep 1'' ''Enter Naruto'' world_both_files = (Inr True, w1) \<and>
     add_title_mapping ''Naruto'' ''Ep 2'' ''Second'' w1 = (Inr True, w2) \<and>
     load_mappings w2 = (Inr doc2, w2) \<and>
     get_at doc2 [''title_mappings'', ''Naruto'', ''special_matches'', ''Ep 1''] =
       Inr (YStr ''Enter Naruto'') \<and>
     get_at doc2 [''title_mappings'', ''Naruto'', ''special_matches'', ''Ep 2''] =
       Inr (YStr ''Second'')"
proof -
  obtain w1 where a: "add_title_mapping ''Naruto'' ''Ep 1'' ''Enter Naruto'' world_both_files = (Inr True, w1)"
    using add_title_mapping_steps [OF load_world_both_files, of "''Naruto''" "''Ep 1''" "''Enter Naruto''"]
    by (simp add: first_title_mapping world_both_files_def)
  have "''Ep 2'' \<noteq> ''Ep 1''" by simp
  with add_title_mapping_then_load [OF a, of "''Ep 2''" "''Second''"] a show ?thesis
    by blast
qed

section \<open>Operations with a handler\<close>

text \<open>
  Every operation but \<open>get_plex_name\<close> ends in a handler for \<^verbatim>\<open>Exception\<close> that returns
  a value, so none of them raises.
\<close>

lemma try_except_total:
  assumes "\<And>e w. \<exists>b. fst (h e w) = Inr b"
  shows "\<exists>b. fst (try_except r h) = Inr b"
proof (cases r)
  case (Pair x w)
  then show ?thesis using assms by (cases x) simp_all
qed

lemma handled_operations_never_raise:
  "(\<exists>doc. fst (load_mappings w) = Inr doc) \<and>
   (\<exists>doc. fst (get_mappings w) = Inr doc) \<and>
   (\<exists>b. fst (save_mappings doc migrate w) = Inr b) \<and>
   (\<exists>b. fst (add_plex_mapping afl_name plex_name w) = Inr b) \<and>
   (\<exists>b. fst (add_title_mapping anime_name episode_title trakt_title w) = Inr b) \<and>
   (\<exists>b. fst (migrate_mappings_from_config w) = Inr b)"
proof (intro conjI)
  show "\<exists>doc. fst (load_mappings w) = Inr doc"
    by (rule load_mappings_returns)
  then show "\<exists>doc. fst (get_mappings w) = Inr doc"
    by (simp add: get_mappings_def)
  show "\<exists>b. fst (save_mappings doc migrate w) = Inr b"
    by (simp add: save_mappings_returns)
  show "\<exists>b. fst (add_plex_mapping afl_name plex_name w) = Inr b"
    unfolding add_plex_mapping_def by (rule try_except_total) auto
  show "\<exists>b. fst (add_title_mapping anime_name episode_title trakt_title w) = Inr b"
    unfolding add_title_mapping_def by (rule try_except_total) auto
  show "\<exists>b. fst (migrate_mappings_from_config w) = Inr b"
    unfolding migrate_mappings_from_config_def by (rule try_except_total) auto
qed

end
